theory Spec2Isabelle
  imports Main "HOL-Library.Sublist"
begin

section \<open>Data model (types.ts)\<close>

text \<open>
  The interfaces of \<^verbatim>\<open>types.ts\<close> become records and the enum a datatype. A JavaScript
  \<^verbatim>\<open>number\<close> field holds a millisecond timestamp or a score; the model carries it as
  an \<^typ>\<open>int\<close> and never computes with it, so a score with a fraction is outside the
  model. An optional property (\<^verbatim>\<open>fileName?\<close>) is
  an \<^typ>\<open>string option\<close>, \<open>None\<close> being \<^verbatim>\<open>undefined\<close>.
  The field \<^verbatim>\<open>id\<close> is written \<open>id'\<close>, since \<open>id\<close> is HOL's identity function; the
  fields of the other interfaces carry a short prefix, because record fields share
  one name space.
\<close>

datatype MediaType = IMAGE | PDF | AUDIO | VIDEO | TEXT_FILE | HTML

record AnalysisHistoryItem =
  h_id :: string
  h_timestamp :: int
  h_type :: MediaType
  h_summary :: string
  h_fileName :: "string option"

record BigFiveScores =
  openness :: int
  conscientiousness :: int
  extraversion :: int
  agreeableness :: int
  neuroticism :: int

record PsychologicalProfile =
  id' :: string
  firstName :: string
  lastName :: string
  dateOfBirth :: string
  lastUpdated :: int
  bigFive :: BigFiveScores
  mbti :: string
  enneagram :: string
  attachmentStyle :: string
  summary :: string
  keyTraits :: "string list"
  bodyLanguageNotes :: "string list"
  toneVoiceNotes :: "string list"
  history :: "AnalysisHistoryItem list"

record CandidateProfile =
  c_firstName :: "string option"
  c_lastName :: "string option"
  c_dateOfBirth :: "string option"

record AnalysisResponse =
  r_candidateProfile :: "CandidateProfile option"
  r_bigFive :: BigFiveScores
  r_mbti :: string
  r_enneagram :: string
  r_attachmentStyle :: string
  r_summary :: string
  r_keyTraits :: "string list"
  r_newObservations :: string
  r_bodyLanguageAnalysis :: "string option"
  r_toneAnalysis :: "string option"

text \<open>Of a browser \<^verbatim>\<open>File\<close> the application reads the name and the MIME type.\<close>

record File =
  f_name :: string
  f_type :: string

section \<open>JavaScript values and objects\<close>

text \<open>
  A string is falsy exactly when it is empty; an optional string is falsy when it is
  \<^verbatim>\<open>undefined\<close>, \<^verbatim>\<open>null\<close> or empty.
\<close>

definition truthy :: "string \<Rightarrow> bool" where
  "truthy s = (s \<noteq> [])"

fun truthyOpt :: "string option \<Rightarrow> bool" where
  "truthyOpt None = False"
| "truthyOpt (Some s) = truthy s"

text \<open>
  The profile store is a plain object used as a dictionary,
  \<^verbatim>\<open>Record<string, PsychologicalProfile>\<close>. Its model is the list of its own
  properties in the order \<^verbatim>\<open>Object.keys\<close> enumerates them, each key occurring once.
  Deleting a property and overwriting an existing one keep the order of the others; a
  new key that is not an array index (a UUID never is one) goes to the end.
\<close>

type_synonym 'a obj = "(string \<times> 'a) list"

definition objectKeys :: "'a obj \<Rightarrow> string list" where
  "objectKeys ob = map fst ob"

fun objDelete :: "'a obj \<Rightarrow> string \<Rightarrow> 'a obj" where
  "objDelete [] k = []"
| "objDelete ((k', v) # ob) k = (if k' = k then objDelete ob k else (k', v) # objDelete ob k)"

fun objSet :: "'a obj \<Rightarrow> string \<Rightarrow> 'a \<Rightarrow> 'a obj" where
  "objSet [] k v = [(k, v)]"
| "objSet ((k', v') # ob) k v = (if k' = k then (k, v) # ob else (k', v') # objSet ob k v)"

text \<open>
  Reading \<^verbatim>\<open>ob[k]\<close> finds an own property first and then walks the prototype chain:
  an object made by a literal or by \<^verbatim>\<open>JSON.parse\<close> inherits the members of
  \<^verbatim>\<open>Object.prototype\<close>, which are functions (or, for \<^verbatim>\<open>__proto__\<close>, the prototype
  itself): truthy values that are no profile.
\<close>

definition objectPrototypeKeys :: "string list" where
  "objectPrototypeKeys =
     [''constructor'', ''hasOwnProperty'', ''isPrototypeOf'', ''propertyIsEnumerable'',
      ''toLocaleString'', ''toString'', ''valueOf'', ''__proto__'',
      ''__defineGetter__'', ''__defineSetter__'', ''__lookupGetter__'', ''__lookupSetter__'']"

datatype 'a lookup = Undefined | Inherited | Own 'a

definition getProp :: "'a obj \<Rightarrow> string \<Rightarrow> 'a lookup" where
  "getProp ob k =
     (case map_of ob k of
        Some v \<Rightarrow> Own v
      | None \<Rightarrow> if k \<in> set objectPrototypeKeys then Inherited else Undefined)"

fun truthyProp :: "'a lookup \<Rightarrow> bool" where
  "truthyProp Undefined = False"
| "truthyProp Inherited = True"
| "truthyProp (Own v) = True"

text \<open>
  A property key that is \<^verbatim>\<open>null\<close> is converted to the string \<^verbatim>\<open>"null"\<close>
  (\<^verbatim>\<open>prev[activeProfileId!]\<close> when no profile is active).
\<close>

fun propKey :: "string option \<Rightarrow> string" where
  "propKey None = ''null''"
| "propKey (Some k) = k"

datatype jsError = TypeError | SyntaxError

text \<open>
  Template literals print a non-negative integer such as \<^verbatim>\<open>files.length\<close> in decimal.
\<close>

definition digitChar :: "nat \<Rightarrow> char" where
  "digitChar d = char_of (48 + d)"

function showNat :: "nat \<Rightarrow> string" where
  "showNat n = (if n < 10 then [digitChar n] else showNat (n div 10) @ [digitChar (n mod 10)])"
  by pat_completeness auto
termination
  by (relation "measure (\<lambda>n. n)") auto

declare showNat.simps [simp del]

definition showInt :: "int \<Rightarrow> string" where
  "showInt i = (if i < 0 then CHR ''-'' # showNat (nat (- i)) else showNat (nat i))"

section \<open>Application state (App.tsx)\<close>

text \<open>
  \<^verbatim>\<open>crypto.randomUUID()\<close> and \<^verbatim>\<open>Date.now()\<close> are inputs of the model: every function
  that calls them takes the values they return as arguments.
\<close>

definition generateNewProfile :: "string \<Rightarrow> int \<Rightarrow> PsychologicalProfile" where
  "generateNewProfile uuid now =
     \<lparr> id' = uuid,
       firstName = ''New'',
       lastName = ''Subject'',
       dateOfBirth = [],
       lastUpdated = now,
       bigFive = \<lparr> openness = 50, conscientiousness = 50, extraversion = 50,
                   agreeableness = 50, neuroticism = 50 \<rparr>,
       mbti = ''Unknown'',
       enneagram = ''Unknown'',
       attachmentStyle = ''Unknown'',
       summary = ''Profile pending. Upload evidence (text screenshots, photos, videos, audio) to begin the psychological profiling process.'',
       keyTraits = [],
       bodyLanguageNotes = [],
       toneVoiceNotes = [],
       history = [] \<rparr>"

record AppState =
  profiles :: "PsychologicalProfile obj"
  activeProfileId :: "string option"
  error :: "string option"

definition initialState :: AppState where
  "initialState = \<lparr> profiles = [], activeProfileId = None, error = None \<rparr>"

subsection \<open>handleAnalysis: merging an analysis into the active profile\<close>

text \<open>
  The file label of the new history entry. \<^verbatim>\<open>files[0].name\<close> on an empty array is a
  TypeError; \<open>handleAnalysis\<close> returns before the merge when no file was given.
\<close>

fun fileLabel :: "File list \<Rightarrow> jsError + string" where
  "fileLabel [] = Inl TypeError"
| "fileLabel (f # fs) =
     Inr (if length (f # fs) > 1 then showNat (length (f # fs)) @ '' files uploaded''
          else f_name f)"

definition newHistoryItem ::
  "string \<Rightarrow> int \<Rightarrow> MediaType \<Rightarrow> AnalysisResponse \<Rightarrow> string \<Rightarrow> AnalysisHistoryItem" where
  "newHistoryItem uuid now ty result label =
     \<lparr> h_id = uuid, h_timestamp = now, h_type = ty,
       h_summary = r_newObservations result, h_fileName = Some label \<rparr>"

definition appendNote :: "string list \<Rightarrow> string option \<Rightarrow> string list" where
  "appendNote notes note = (if truthyOpt note then notes @ [the note] else notes)"

definition newFirstName :: "PsychologicalProfile \<Rightarrow> AnalysisResponse \<Rightarrow> string" where
  "newFirstName current result =
     (case r_candidateProfile result of
        None \<Rightarrow> firstName current
      | Some cand \<Rightarrow>
          if truthyOpt (c_firstName cand) \<and>
             (firstName current = ''New'' \<or> firstName current = ''Subject'' \<or>
              \<not> truthy (firstName current))
          then the (c_firstName cand) else firstName current)"

definition newLastName :: "PsychologicalProfile \<Rightarrow> AnalysisResponse \<Rightarrow> string" where
  "newLastName current result =
     (case r_candidateProfile result of
        None \<Rightarrow> lastName current
      | Some cand \<Rightarrow>
          if truthyOpt (c_lastName cand) \<and>
             (lastName current = ''Subject'' \<or> lastName current = ''001'' \<or>
              \<not> truthy (lastName current))
          then the (c_lastName cand) else lastName current)"

definition newDOB :: "PsychologicalProfile \<Rightarrow> AnalysisResponse \<Rightarrow> string" where
  "newDOB current result =
     (case r_candidateProfile result of
        None \<Rightarrow> dateOfBirth current
      | Some cand \<Rightarrow>
          if truthyOpt (c_dateOfBirth cand) \<and> \<not> truthy (dateOfBirth current)
          then the (c_dateOfBirth cand) else dateOfBirth current)"

text \<open>
  The updated profile of the state updater, lines 241 to 289: \<open>uuid\<close> is the value of
  \<^verbatim>\<open>crypto.randomUUID()\<close>, \<open>now\<close> and \<open>now2\<close> are the values of the first and the
  second call of \<^verbatim>\<open>Date.now()\<close>, and \<open>label\<close> is the file label.
\<close>

definition mergeProfile ::
  "PsychologicalProfile \<Rightarrow> AnalysisResponse \<Rightarrow> MediaType \<Rightarrow> string \<Rightarrow> string \<Rightarrow> int
     \<Rightarrow> int \<Rightarrow> PsychologicalProfile" where
  "mergeProfile current result ty label uuid now now2 =
     current\<lparr>
       firstName := newFirstName current result,
       lastName := newLastName current result,
       dateOfBirth := newDOB current result,
       lastUpdated := now2,
       bigFive := r_bigFive result,
       mbti := r_mbti result,
       enneagram := r_enneagram result,
       attachmentStyle := r_attachmentStyle result,
       summary := r_summary result,
       keyTraits := r_keyTraits result,
       bodyLanguageNotes := appendNote (bodyLanguageNotes current) (r_bodyLanguageAnalysis result),
       toneVoiceNotes := appendNote (toneVoiceNotes current) (r_toneAnalysis result),
       history := history current @ [newHistoryItem uuid now ty result label] \<rparr>"

text \<open>
  The updater passed to \<^verbatim>\<open>setProfiles\<close>, lines 237 to 295. When the active id names no
  own property of the store but a member of \<^verbatim>\<open>Object.prototype\<close>, \<^verbatim>\<open>current\<close> is that
  member, \<^verbatim>\<open>current.history\<close> is \<^verbatim>\<open>undefined\<close> and spreading it is a TypeError.
\<close>

definition analysisUpdater ::
  "PsychologicalProfile obj \<Rightarrow> string option \<Rightarrow> File list \<Rightarrow> MediaType \<Rightarrow> AnalysisResponse
     \<Rightarrow> string \<Rightarrow> int \<Rightarrow> int \<Rightarrow> jsError + PsychologicalProfile obj" where
  "analysisUpdater prev activeId files ty result uuid now now2 =
     (case getProp prev (propKey activeId) of
        Undefined \<Rightarrow> Inr prev
      | Inherited \<Rightarrow> Inl TypeError
      | Own current \<Rightarrow>
          (case fileLabel files of
             Inl e \<Rightarrow> Inl e
           | Inr label \<Rightarrow>
               Inr (objSet prev (propKey activeId)
                      (mergeProfile current result ty label uuid now now2))))"

text \<open>
  \<open>handleAnalysis\<close> itself: nothing happens without files; a rejected analysis call
  (\<open>None\<close>) only sets the error message; a successful one runs the updater.
\<close>

definition analysisFailedMessage :: string where
  "analysisFailedMessage = ''Analysis failed. If uploading large videos, ensure they are under the API size limit or try shorter clips.''"

definition handleAnalysis ::
  "AppState \<Rightarrow> File list \<Rightarrow> MediaType \<Rightarrow> AnalysisResponse option \<Rightarrow> string \<Rightarrow> int
     \<Rightarrow> int \<Rightarrow> jsError + AppState" where
  "handleAnalysis st files ty outcome uuid now now2 =
     (if files = [] then Inr st
      else case outcome of
             None \<Rightarrow> Inr (st\<lparr>error := Some analysisFailedMessage\<rparr>)
           | Some result \<Rightarrow>
               (case analysisUpdater (profiles st) (activeProfileId st) files ty result uuid now now2 of
                  Inl e \<Rightarrow> Inl e
                | Inr ps \<Rightarrow> Inr (st\<lparr>profiles := ps, error := None\<rparr>)))"

subsection \<open>handleDeleteProfile\<close>

text \<open>
  \<open>confirmed\<close> is the answer of the \<^verbatim>\<open>confirm\<close> dialog. The handler returns at once
  when the active id is \<^verbatim>\<open>null\<close> or empty.
\<close>

definition handleDeleteProfile :: "AppState \<Rightarrow> bool \<Rightarrow> string \<Rightarrow> int \<Rightarrow> AppState" where
  "handleDeleteProfile st confirmed uuid now =
     (case activeProfileId st of
        None \<Rightarrow> st
      | Some activeId \<Rightarrow>
          if \<not> truthy activeId then st
          else if confirmed then
            (let newProfiles = objDelete (profiles st) activeId;
                 remainingIds = objectKeys newProfiles
             in if length remainingIds = 0
                then (let fresh = generateNewProfile uuid now
                      in st\<lparr>profiles := [(id' fresh, fresh)], activeProfileId := Some (id' fresh)\<rparr>)
                else st\<lparr>profiles := newProfiles, activeProfileId := Some (hd remainingIds)\<rparr>)
          else st)"

subsection \<open>loadData: initialisation and migration\<close>

text \<open>
  The three keys of \<^verbatim>\<open>localStorage\<close> the application uses; \<open>None\<close> is the \<^verbatim>\<open>null\<close>
  that \<^verbatim>\<open>getItem\<close> returns for a key that is not set.
\<close>

record Storage =
  psycho_profiles_db :: "string option"
  psycho_active_id :: "string option"
  psycho_profile_v3 :: "string option"

text \<open>
  A legacy record is read through three properties (\<^verbatim>\<open>firstName\<close>, \<^verbatim>\<open>lastName\<close>,
  \<^verbatim>\<open>name\<close>) and spread over the defaults, so each property of a profile may be present
  or not.
\<close>

record LegacyProfile =
  l_name :: "string option"
  l_id :: "string option"
  l_firstName :: "string option"
  l_lastName :: "string option"
  l_dateOfBirth :: "string option"
  l_lastUpdated :: "int option"
  l_bigFive :: "BigFiveScores option"
  l_mbti :: "string option"
  l_enneagram :: "string option"
  l_attachmentStyle :: "string option"
  l_summary :: "string option"
  l_keyTraits :: "string list option"
  l_bodyLanguageNotes :: "string list option"
  l_toneVoiceNotes :: "string list option"
  l_history :: "AnalysisHistoryItem list option"

text \<open>\<^verbatim>\<open>s.split(c)\<close> for a one-character separator, \<^verbatim>\<open>a.join(sep)\<close> and \<^verbatim>\<open>a[0]\<close>.\<close>

fun split :: "char \<Rightarrow> string \<Rightarrow> string list" where
  "split c [] = [[]]"
| "split c (x # xs) =
     (if x = c then [] # split c xs
      else (case split c xs of [] \<Rightarrow> [[x]] | w # ws \<Rightarrow> (x # w) # ws))"

fun join :: "string \<Rightarrow> string list \<Rightarrow> string" where
  "join sep [] = []"
| "join sep [x] = x"
| "join sep (x # y # ys) = x @ sep @ join sep (y # ys)"

fun first :: "'a list \<Rightarrow> 'a option" where
  "first [] = None"
| "first (x # xs) = Some x"

text \<open>\<^verbatim>\<open>a || b\<close> on optional strings, and \<^verbatim>\<open>a || "literal"\<close>.\<close>

definition jsOr :: "string option \<Rightarrow> string option \<Rightarrow> string option" where
  "jsOr a b = (if truthyOpt a then a else b)"

definition orDefault :: "string option \<Rightarrow> string \<Rightarrow> string" where
  "orDefault a d = (case a of None \<Rightarrow> d | Some s \<Rightarrow> if truthy s then s else d)"

text \<open>
  \<^verbatim>\<open>{...a, ...b}\<close> property by property: the value of \<open>b\<close> when \<open>b\<close> has the property.
\<close>

definition spread :: "'a \<Rightarrow> 'a option \<Rightarrow> 'a" where
  "spread d v = (case v of None \<Rightarrow> d | Some x \<Rightarrow> x)"

text \<open>
  The migrated profile, lines 91 to 97. \<open>newId\<close> is the first UUID drawn, \<open>defaults\<close>
  the result of \<^verbatim>\<open>generateNewProfile()\<close>.
\<close>

definition migratedProfile ::
  "LegacyProfile \<Rightarrow> string \<Rightarrow> PsychologicalProfile \<Rightarrow> PsychologicalProfile" where
  "migratedProfile parsedLegacy newId defaults =
     \<lparr> id' = newId,
       firstName =
         orDefault (jsOr (l_firstName parsedLegacy)
                      (case l_name parsedLegacy of
                         None \<Rightarrow> None
                       | Some n \<Rightarrow> first (split CHR '' '' n)))
           ''Subject'',
       lastName =
         orDefault (jsOr (l_lastName parsedLegacy)
                      (case l_name parsedLegacy of
                         None \<Rightarrow> None
                       | Some n \<Rightarrow> Some (join '' '' (drop 1 (split CHR '' '' n)))))
           ''001'',
       dateOfBirth = spread (dateOfBirth defaults) (l_dateOfBirth parsedLegacy),
       lastUpdated = spread (lastUpdated defaults) (l_lastUpdated parsedLegacy),
       bigFive = spread (bigFive defaults) (l_bigFive parsedLegacy),
       mbti = spread (mbti defaults) (l_mbti parsedLegacy),
       enneagram = spread (enneagram defaults) (l_enneagram parsedLegacy),
       attachmentStyle = spread (attachmentStyle defaults) (l_attachmentStyle parsedLegacy),
       summary = spread (summary defaults) (l_summary parsedLegacy),
       keyTraits = spread (keyTraits defaults) (l_keyTraits parsedLegacy),
       bodyLanguageNotes = spread (bodyLanguageNotes defaults) (l_bodyLanguageNotes parsedLegacy),
       toneVoiceNotes = spread (toneVoiceNotes defaults) (l_toneVoiceNotes parsedLegacy),
       history = spread (history defaults) (l_history parsedLegacy) \<rparr>"

definition freshStart :: "string \<Rightarrow> int \<Rightarrow> AppState" where
  "freshStart uuid now =
     (let newP = generateNewProfile uuid now
      in initialState\<lparr>profiles := [(id' newP, newP)], activeProfileId := Some (id' newP)\<rparr>)"

text \<open>
  \<^verbatim>\<open>JSON.parse\<close> is the host's: the model takes it as two arguments, one for each type
  the source gives its result. \<open>parseProfiles\<close> reads the payload of
  \<^verbatim>\<open>psycho_profiles_db\<close> as a \<^verbatim>\<open>Record<string, PsychologicalProfile>\<close>, \<open>parseLegacy\<close>
  the payload of \<^verbatim>\<open>psycho_profile_v3\<close> as a legacy record; \<open>None\<close> is the SyntaxError
  thrown on text that is not JSON, which both \<^verbatim>\<open>catch\<close> blocks turn into a fresh start.
  Stored text that is JSON is taken to have the type the source declares for it; the
  model does not cover JSON of another shape (\<^verbatim>\<open>null\<close>, a number, a profile with a
  field of the wrong type).
  \<open>uuid1\<close> and \<open>uuid2\<close> are the first and second result of \<^verbatim>\<open>crypto.randomUUID()\<close>.
  The result is the state after the effect and the storage it leaves.
\<close>

definition loadData ::
  "(string \<Rightarrow> PsychologicalProfile obj option) \<Rightarrow> (string \<Rightarrow> LegacyProfile option)
     \<Rightarrow> Storage \<Rightarrow> string \<Rightarrow> string \<Rightarrow> int \<Rightarrow> AppState \<times> Storage" where
  "loadData parseProfiles parseLegacy ls uuid1 uuid2 now =
     (let savedProfiles = psycho_profiles_db ls;
          savedActiveId = psycho_active_id ls
      in if truthyOpt savedProfiles then
           (case parseProfiles (the savedProfiles) of
              Some parsedProfiles \<Rightarrow>
                (if truthyOpt savedActiveId \<and>
                    truthyProp (getProp parsedProfiles (the savedActiveId))
                 then (initialState\<lparr>profiles := parsedProfiles,
                                     activeProfileId := savedActiveId\<rparr>, ls)
                 else
                   (case first (objectKeys parsedProfiles) of
                      None \<Rightarrow> (initialState\<lparr>profiles := parsedProfiles\<rparr>, ls)
                    | Some firstId \<Rightarrow>
                        if truthy firstId
                        then (initialState\<lparr>profiles := parsedProfiles,
                                            activeProfileId := Some firstId\<rparr>, ls)
                        else (initialState\<lparr>profiles := parsedProfiles\<rparr>, ls)))
            | None \<Rightarrow> (freshStart uuid1 now, ls))
         else
           (let legacyProfile = psycho_profile_v3 ls
            in if truthyOpt legacyProfile then
                 (case parseLegacy (the legacyProfile) of
                    Some parsedLegacy \<Rightarrow>
                      (let newId = uuid1;
                           migrated = migratedProfile parsedLegacy newId
                                        (generateNewProfile uuid2 now)
                       in (initialState\<lparr>profiles := [(newId, migrated)],
                                         activeProfileId := Some newId\<rparr>,
                           ls\<lparr>psycho_profile_v3 := None\<rparr>))
                  | None \<Rightarrow> (freshStart uuid1 now, ls))
               else (freshStart uuid1 now, ls)))"

subsection \<open>Export: the reports and handleExport\<close>

text \<open>
  The host formats dates: \<open>toLocaleString\<close> and \<open>toLocaleDateString\<close> stand for
  \<^verbatim>\<open>new Date(t).toLocaleString()\<close> and \<^verbatim>\<open>new Date(t).toLocaleDateString()\<close>, and are
  arguments of the reports. A template literal prints a string as it is, a number in
  decimal and a \<^verbatim>\<open>MediaType\<close> as its name.
\<close>

fun mediaTypeString :: "MediaType \<Rightarrow> string" where
  "mediaTypeString IMAGE = ''IMAGE''"
| "mediaTypeString PDF = ''PDF''"
| "mediaTypeString AUDIO = ''AUDIO''"
| "mediaTypeString VIDEO = ''VIDEO''"
| "mediaTypeString TEXT_FILE = ''TEXT_FILE''"
| "mediaTypeString HTML = ''HTML''"

text \<open>
  \<^verbatim>\<open>s.trim()\<close> removes the white space at both ends. Strings are lists of 8-bit
  characters here, so white space is the ASCII white space.
\<close>

definition isSpace :: "char \<Rightarrow> bool" where
  "isSpace c = (c \<in> {CHR '' '', CHR 0x09, CHR 0x0A, CHR 0x0B, CHR 0x0C, CHR 0x0D})"


definition trimEnd :: "string \<Rightarrow> string" where
  "trimEnd s = rev (dropWhile isSpace (rev s))"










text \<open>The lists of the HTML report, lines 396 to 408.\<close>

definition htmlTraits :: "PsychologicalProfile \<Rightarrow> string" where
  \<open>htmlTraits p = join '' '' (map (\<lambda>t. ''<span class="tag">'' @ t @ ''</span>'') (keyTraits p))\<close>

definition htmlBodyLanguage :: "PsychologicalProfile \<Rightarrow> string" where
  "htmlBodyLanguage p =
     (if length (bodyLanguageNotes p) > 0
      then join [] (map (\<lambda>n. ''<li>'' @ n @ ''</li>'') (bodyLanguageNotes p))
      else ''<li>No specific body language data analyzed yet.</li>'')"

definition htmlToneVoice :: "PsychologicalProfile \<Rightarrow> string" where
  "htmlToneVoice p =
     (if length (toneVoiceNotes p) > 0
      then join [] (map (\<lambda>n. ''<li>'' @ n @ ''</li>'') (toneVoiceNotes p))
      else ''<li>No specific vocal data analyzed yet.</li>'')"

definition htmlHistoryLine :: "(int \<Rightarrow> string) \<Rightarrow> AnalysisHistoryItem \<Rightarrow> string" where
  "htmlHistoryLine toLocaleDateString h =
     ''<li><strong>'' @ toLocaleDateString (h_timestamp h) @ '':</strong> ('' @
     mediaTypeString (h_type h) @ '') '' @ h_summary h @ ''</li>''"

definition htmlHistory :: "(int \<Rightarrow> string) \<Rightarrow> PsychologicalProfile \<Rightarrow> string" where
  "htmlHistory toLocaleDateString p =
     join [] (map (htmlHistoryLine toLocaleDateString) (rev (history p)))"

text \<open>
  \<open>generateHTMLReport\<close>, lines 350 to 412; \<open>now\<close> is the time of the export, printed
  as the date the report was generated.
\<close>

definition generateHTMLReport ::
  "(int \<Rightarrow> string) \<Rightarrow> (int \<Rightarrow> string) \<Rightarrow> int \<Rightarrow> PsychologicalProfile \<Rightarrow> string" where
  \<open>generateHTMLReport toLocaleString toLocaleDateString now p =
       ''\<newline>'' @
       ''    <!DOCTYPE html>\<newline>'' @
       ''    <html xmlns:o='urn:schemas-microsoft-com:office:office' xmlns:w='urn:schemas-microsoft-com:office:word' xmlns='http://www.w3.org/TR/REC-html40'>\<newline>'' @
       ''    <head>\<newline>'' @
       ''    <meta charset="utf-8">\<newline>'' @
       ''    '' @
       ''<title>Psychological Profile - '' @
       firstName p @
       '' '' @
       lastName p @
       ''</title>\<newline>'' @
       ''    <style>\<newline>'' @
       ''      body { font-family: 'Calibri', 'Arial', sans-serif; line-height: 1.5; color: #1a1a1a; max-width: 800px; margin: 0 auto; padding: 20px; }\<newline>'' @
       ''      h1 { color: #2563eb; border-bottom: 2px solid #2563eb; padding-bottom: 10px; font-size: 24px; margin-bottom: 20px; }\<newline>'' @
       ''      h2 { color: #0f172a; background: #f1f5f9; padding: 8px; margin-top: 25px; font-size: 18px; border-left: 4px solid #2563eb; }\<newline>'' @
       ''      h3 { color: #475569; margin-top: 15px; font-size: 16px; text-transform: uppercase; letter-spacing: 0.05em; }\<newline>'' @
       ''      .meta { background: #f8fafc; padding: 15px; border-radius: 8px; border: 1px solid #e2e8f0; margin-bottom: 30px; }\<newline>'' @
       ''      .metric-row { display: flex; justify-content: space-between; margin-bottom: 5px; border-bottom: 1px dotted #cbd5e1; padding-bottom: 2px; }\<newline>'' @
       ''      .tag { background: #e0f2fe; color: #0369a1; padding: 2px 8px; border-radius: 12px; font-size: 0.9em; margin-right: 5px; display: inline-block; border: 1px solid #bae6fd; }\<newline>'' @
       ''      ul { margin-top: 5px; padding-left: 20px; }\<newline>'' @
       ''      li { margin-bottom: 4px; }\<newline>'' @
       ''      p { text-align: justify; }\<newline>'' @
       ''    </style>\<newline>'' @
       ''    </head>\<newline>'' @
       ''    <body>\<newline>'' @
       ''      <h1>CONFIDENTIAL PSYCHOLOGICAL PROFILE</h1>\<newline>'' @
       ''      \<newline>'' @
       ''      <div class="meta">\<newline>'' @
       ''        '' @
       ''<p><strong>Subject:</strong> '' @
       firstName p @
       '' '' @
       lastName p @
       ''</p>\<newline>'' @
       ''        '' @
       ''<p><strong>Date of Birth:</strong> '' @
       (if truthy (dateOfBirth p) then dateOfBirth p else ''Unknown'') @
       ''</p>\<newline>'' @
       ''        '' @
       ''<p><strong>Report Generated:</strong> '' @
       toLocaleString now @
       ''</p>\<newline>'' @
       ''      </div>\<newline>'' @
       ''\<newline>'' @
       ''      <h2>EXECUTIVE SUMMARY</h2>\<newline>'' @
       ''      '' @
       ''<p>'' @
       summary p @
       ''</p>\<newline>'' @
       ''\<newline>'' @
       ''      <h2>PERSONALITY ARCHETYPE</h2>\<newline>'' @
       ''      <p>\<newline>'' @
       ''        '' @
       ''<strong>MBTI:</strong> '' @
       mbti p @
       ''<br/>\<newline>'' @
       ''        '' @
       ''<strong>Enneagram:</strong> '' @
       enneagram p @
       ''<br/>\<newline>'' @
       ''        '' @
       ''<strong>Attachment Style:</strong> '' @
       attachmentStyle p @
       ''\<newline>'' @
       ''      </p>\<newline>'' @
       ''\<newline>'' @
       ''      <h2>BIG FIVE METRICS</h2>\<newline>'' @
       ''      '' @
       ''<div class="metric-row"><span>Openness</span> <strong>'' @
       showInt (openness (bigFive p)) @
       ''/100</strong></div>\<newline>'' @
       ''      '' @
       ''<div class="metric-row"><span>Conscientiousness</span> <strong>'' @
       showInt (conscientiousness (bigFive p)) @
       ''/100</strong></div>\<newline>'' @
       ''      '' @
       ''<div class="metric-row"><span>Extraversion</span> <strong>'' @
       showInt (extraversion (bigFive p)) @
       ''/100</strong></div>\<newline>'' @
       ''      '' @
       ''<div class="metric-row"><span>Agreeableness</span> <strong>'' @
       showInt (agreeableness (bigFive p)) @
       ''/100</strong></div>\<newline>'' @
       ''      '' @
       ''<div class="metric-row"><span>Neuroticism</span> <strong>'' @
       showInt (neuroticism (bigFive p)) @
       ''/100</strong></div>\<newline>'' @
       ''\<newline>'' @
       ''      <h2>OBSERVED TRAITS</h2>\<newline>'' @
       ''      '' @
       ''<p>'' @
       htmlTraits p @
       ''</p>\<newline>'' @
       ''\<newline>'' @
       ''      <h2>DETAILED ANALYSIS</h2>\<newline>'' @
       ''      \<newline>'' @
       ''      <h3>Body Language & Kinesics</h3>\<newline>'' @
       ''      '' @
       ''<ul>'' @
       htmlBodyLanguage p @
       ''</ul>\<newline>'' @
       ''\<newline>'' @
       ''      <h3>Tone & Voice</h3>\<newline>'' @
       ''      '' @
       ''<ul>'' @
       htmlToneVoice p @
       ''</ul>\<newline>'' @
       ''\<newline>'' @
       ''      <h2>EVIDENCE LOG</h2>\<newline>'' @
       ''      <ul>\<newline>'' @
       ''        '' @
       htmlHistory toLocaleDateString p @
       ''\<newline>'' @
       ''      </ul>\<newline>'' @
       ''    </body>\<newline>'' @
       ''    </html>\<newline>'' @
       ''  ''\<close>













section \<open>Sequences of merges and sample data\<close>

text \<open>
  Successive merges into one profile: each element carries the analysis result, the
  media type, the file label, the UUID and the two times of one successful analysis.
\<close>

definition mergeAll ::
  "PsychologicalProfile \<Rightarrow> (AnalysisResponse \<times> MediaType \<times> string \<times> string \<times> int \<times> int) list
     \<Rightarrow> PsychologicalProfile" where
  "mergeAll current ms =
     foldl (\<lambda>p (result, ty, label, uuid, now, now2).
              mergeProfile p result ty label uuid now now2) current ms"

text \<open>
  Concrete values for the examples: a fresh profile, an analysis result, a file, and the
  text the application would have stored for a store holding the fresh profile.
\<close>

definition sampleProfile :: PsychologicalProfile where
  "sampleProfile = generateNewProfile ''p1'' 0"

definition sampleResponse :: AnalysisResponse where
  "sampleResponse =
     \<lparr> r_candidateProfile =
         Some \<lparr> c_firstName = Some ''Alex'', c_lastName = Some ''Jordan'',
                c_dateOfBirth = Some ''1990-04-12'' \<rparr>,
       r_bigFive = \<lparr> openness = 70, conscientiousness = 55, extraversion = 30,
                     agreeableness = 60, neuroticism = 45 \<rparr>,
       r_mbti = ''INTJ'',
       r_enneagram = ''5w4'',
       r_attachmentStyle = ''Secure'',
       r_summary = ''Reserved and analytical.'',
       r_keyTraits = [''Analytical'', ''Private''],
       r_newObservations = ''Keeps arms crossed while speaking.'',
       r_bodyLanguageAnalysis = Some ''Closed posture.'',
       r_toneAnalysis = None \<rparr>"

definition sampleFile :: File where
  "sampleFile = \<lparr> f_name = ''chat.png'', f_type = ''image/png'' \<rparr>"

definition sampleDbPayload :: string where
  \<open>sampleDbPayload = ''{"p1":{"id":"p1","firstName":"New","lastName":"Subject","dateOfBirth":"","lastUpdated":0,"bigFive":{"openness":50,"conscientiousness":50,"extraversion":50,"agreeableness":50,"neuroticism":50},"mbti":"Unknown","enneagram":"Unknown","attachmentStyle":"Unknown","summary":"Profile pending. Upload evidence (text screenshots, photos, videos, audio) to begin the psychological profiling process.","keyTraits":[],"bodyLanguageNotes":[],"toneVoiceNotes":[],"history":[]}}''\<close>

definition sampleLegacyPayload :: string where
  \<open>sampleLegacyPayload = ''{"name":"Jane Doe"}''\<close>

text \<open>
  Stand-ins for \<^verbatim>\<open>JSON.parse\<close> in the examples. They agree with it on the payloads
  the examples use: the two sample texts parse to the values below, and the empty text
  and a truncated text are not JSON.
\<close>

definition sampleLegacy :: LegacyProfile where
  "sampleLegacy =
     \<lparr> l_name = Some ''Jane Doe'', l_id = None, l_firstName = None, l_lastName = None,
       l_dateOfBirth = None, l_lastUpdated = None, l_bigFive = None, l_mbti = None,
       l_enneagram = None, l_attachmentStyle = None, l_summary = None, l_keyTraits = None,
       l_bodyLanguageNotes = None, l_toneVoiceNotes = None, l_history = None \<rparr>"

definition sampleParseProfiles :: "string \<Rightarrow> PsychologicalProfile obj option" where
  "sampleParseProfiles s = (if s = sampleDbPayload then Some [(''p1'', sampleProfile)] else None)"

definition sampleParseLegacy :: "string \<Rightarrow> LegacyProfile option" where
  "sampleParseLegacy s = (if s = sampleLegacyPayload then Some sampleLegacy else None)"





section \<open>Properties\<close>

subsection \<open>Objects\<close>

lemma map_of_objSet: "map_of (objSet ob k v) k' = (if k' = k then Some v else map_of ob k')"
  by (induction ob) auto

lemma getProp_objSet_same: "getProp (objSet ob k v) k = Own v"
  by (simp add: getProp_def map_of_objSet)

lemma getProp_objSet_other: "k' \<noteq> k \<Longrightarrow> getProp (objSet ob k v) k' = getProp ob k'"
  by (simp add: getProp_def map_of_objSet)

lemma objectKeys_objSet: "map_of ob k = Some v' \<Longrightarrow> objectKeys (objSet ob k v) = objectKeys ob"
  by (induction ob) (auto simp: objectKeys_def)

lemma getProp_Own_iff: "getProp ob k = Own v \<longleftrightarrow> map_of ob k = Some v"
  by (auto simp: getProp_def split: option.splits)

lemma objDelete_Nil_iff: "objDelete ob k = [] \<longleftrightarrow> (\<forall>k' \<in> set (objectKeys ob). k' = k)"
  by (induction ob) (auto simp: objectKeys_def split: if_splits)

lemma map_of_objDelete: "map_of (objDelete ob k) k' = (if k' = k then None else map_of ob k')"
  by (induction ob) auto

subsection \<open>split and join\<close>

lemma split_not_Nil: "split c s \<noteq> []"
  by (induction s) (auto split: list.splits)

lemma first_split: "first (split c s) = Some (takeWhile (\<lambda>x. x \<noteq> c) s)"
  by (induction s) (auto split: list.splits)

lemma join_Cons: "ws \<noteq> [] \<Longrightarrow> join sep (w # ws) = w @ sep @ join sep ws"
  by (cases ws) auto

lemma join_split: "join [c] (split c s) = s"
proof (induction s)
  case Nil
  then show ?case by simp
next
  case (Cons x xs)
  show ?case
  proof (cases "x = c")
    case True
    then show ?thesis using Cons by (simp add: join_Cons split_not_Nil)
  next
    case False
    obtain w ws where s: "split c xs = w # ws"
      using split_not_Nil [of c xs] by (cases "split c xs") auto
    have "join [c] ((x # w) # ws) = x # join [c] (w # ws)"
      by (cases ws) auto
    then show ?thesis using False Cons s by simp
  qed
qed

lemma join_rest_split:
  "join [c] (drop 1 (split c s)) = drop 1 (dropWhile (\<lambda>x. x \<noteq> c) s)"
proof (induction s)
  case Nil
  then show ?case by simp
next
  case (Cons x xs)
  show ?case
  proof (cases "x = c")
    case True
    then show ?thesis by (simp add: join_split)
  next
    case False
    obtain w ws where s: "split c xs = w # ws"
      using split_not_Nil [of c xs] by (cases "split c xs") auto
    then show ?thesis using False Cons by simp
  qed
qed

subsection \<open>The merge\<close>

lemma analysisUpdater_Own:
  assumes "getProp prev (propKey aid) = Own current" and "files \<noteq> []"
  shows "analysisUpdater prev aid files ty result uuid now now2 =
           Inr (objSet prev (propKey aid)
                  (mergeProfile current result ty
                     (if length files > 1 then showNat (length files) @ '' files uploaded''
                      else f_name (hd files)) uuid now now2))"
  using assms by (cases files) (simp_all add: analysisUpdater_def)

lemma newDOB_keeps: "dateOfBirth current \<noteq> [] \<Longrightarrow> newDOB current result = dateOfBirth current"
  by (simp add: newDOB_def truthy_def split: option.splits)

lemma mergeAll_keeps_dob:
  "dateOfBirth current \<noteq> [] \<Longrightarrow> dateOfBirth (mergeAll current ms) = dateOfBirth current"
  unfolding mergeAll_def
proof (induction ms arbitrary: current)
  case Nil
  then show ?case by simp
next
  case (Cons m ms)
  obtain result ty label uuid now now2 where m: "m = (result, ty, label, uuid, now, now2)"
    by (cases m) auto
  have d: "dateOfBirth (mergeProfile current result ty label uuid now now2) = dateOfBirth current"
    using Cons.prems by (simp add: mergeProfile_def newDOB_keeps)
  show ?case using Cons.IH [of "mergeProfile current result ty label uuid now now2"] d Cons.prems
    by (simp add: m)
qed

text \<open>
  C1, as amended. After a merge, \<open>firstName\<close> is the candidate's first name when the
  result supplies a non-empty one and the first name before the merge is empty,
  \<^verbatim>\<open>"New"\<close> or \<^verbatim>\<open>"Subject"\<close>, and is unchanged in every other case; \<open>lastName\<close> is the
  candidate's last name when the result supplies a non-empty one and the last name before
  the merge is empty, \<^verbatim>\<open>"Subject"\<close> or \<^verbatim>\<open>"001"\<close>, and is unchanged otherwise.
\<close>

theorem C1_names: 
  "firstName (mergeProfile current result ty label uuid now now2) =
     (case r_candidateProfile result of
        None \<Rightarrow> firstName current
      | Some cand \<Rightarrow>
          (case c_firstName cand of
             None \<Rightarrow> firstName current
           | Some fn \<Rightarrow>
               if fn \<noteq> [] \<and> firstName current \<in> {[], ''New'', ''Subject''} then fn
               else firstName current))
   \<and> lastName (mergeProfile current result ty label uuid now now2) =
     (case r_candidateProfile result of
        None \<Rightarrow> lastName current
      | Some cand \<Rightarrow>
          (case c_lastName cand of
             None \<Rightarrow> lastName current
           | Some ln \<Rightarrow>
               if ln \<noteq> [] \<and> lastName current \<in> {[], ''Subject'', ''001''} then ln
               else lastName current))"
  by (auto simp: mergeProfile_def newFirstName_def newLastName_def truthy_def split: option.splits)

theorem C1_names_witness:
  "firstName (mergeProfile sampleProfile sampleResponse IMAGE ''chat.png'' ''h1'' 5 6) = ''Alex''
   \<and> lastName (mergeProfile sampleProfile sampleResponse IMAGE ''chat.png'' ''h1'' 5 6) = ''Jordan''"
  using C1_names [of sampleProfile sampleResponse IMAGE "''chat.png''" "''h1''" 5 6]
  by (simp add: sampleProfile_def sampleResponse_def generateNewProfile_def)

text \<open>
  C1 as stated fails: \<^verbatim>\<open>"Subject"\<close>, the first name a migration falls back to, is
  neither empty nor \<^verbatim>\<open>"New"\<close>, and the merge overwrites it.
\<close>

theorem C1_counterexample:
  "firstName (sampleProfile\<lparr>firstName := ''Subject''\<rparr>) \<noteq> []
   \<and> firstName (sampleProfile\<lparr>firstName := ''Subject''\<rparr>) \<noteq> ''New''
   \<and> firstName (mergeProfile (sampleProfile\<lparr>firstName := ''Subject''\<rparr>) sampleResponse
                   IMAGE ''chat.png'' ''h1'' 5 6) = ''Alex''"
  by (simp add: mergeProfile_def newFirstName_def sampleResponse_def truthy_def)

text \<open>
  C3. A merge extends \<open>history\<close> by exactly one entry, and each notes list is either
  unchanged or extended by the one note of the result; no list gets shorter.
\<close>

theorem C3_append:
  "history (mergeProfile current result ty label uuid now now2) =
     history current @ [newHistoryItem uuid now ty result label]
   \<and> length (history (mergeProfile current result ty label uuid now now2)) = length (history current) + 1
   \<and> bodyLanguageNotes (mergeProfile current result ty label uuid now now2) =
       (case r_bodyLanguageAnalysis result of
          None \<Rightarrow> bodyLanguageNotes current
        | Some note \<Rightarrow> if note = [] then bodyLanguageNotes current
                       else bodyLanguageNotes current @ [note])
   \<and> toneVoiceNotes (mergeProfile current result ty label uuid now now2) =
       (case r_toneAnalysis result of
          None \<Rightarrow> toneVoiceNotes current
        | Some note \<Rightarrow> if note = [] then toneVoiceNotes current
                       else toneVoiceNotes current @ [note])
   \<and> length (bodyLanguageNotes current)
       \<le> length (bodyLanguageNotes (mergeProfile current result ty label uuid now now2))
   \<and> length (toneVoiceNotes current)
       \<le> length (toneVoiceNotes (mergeProfile current result ty label uuid now now2))"
  by (auto simp: mergeProfile_def appendNote_def truthy_def split: option.splits)

theorem C3_append_witness:
  "length (history (mergeProfile sampleProfile sampleResponse IMAGE ''chat.png'' ''h1'' 5 6)) = 1
   \<and> bodyLanguageNotes (mergeProfile sampleProfile sampleResponse IMAGE ''chat.png'' ''h1'' 5 6)
       = [''Closed posture.'']
   \<and> toneVoiceNotes (mergeProfile sampleProfile sampleResponse IMAGE ''chat.png'' ''h1'' 5 6) = []"
  using C3_append [of sampleProfile sampleResponse IMAGE "''chat.png''" "''h1''" 5 6]
  by (simp add: sampleProfile_def sampleResponse_def generateNewProfile_def)

text \<open>
  C4. A merge takes \<open>dateOfBirth\<close> from the candidate only when it is empty before the
  merge; once it is non-empty, no sequence of merges changes it.
\<close>

theorem C4_dob:
  "dateOfBirth (mergeProfile current result ty label uuid now now2) =
     (if dateOfBirth current = []
      then (case r_candidateProfile result of
              None \<Rightarrow> []
            | Some cand \<Rightarrow> (case c_dateOfBirth cand of None \<Rightarrow> [] | Some d \<Rightarrow> d))
      else dateOfBirth current)
   \<and> (dateOfBirth current \<noteq> [] \<longrightarrow> dateOfBirth (mergeAll current ms) = dateOfBirth current)"
  by (auto simp: mergeAll_keeps_dob mergeProfile_def newDOB_def truthy_def split: option.splits)

theorem C4_dob_witness:
  "dateOfBirth (sampleProfile\<lparr>dateOfBirth := ''1985-01-31''\<rparr>) \<noteq> []
   \<and> dateOfBirth (mergeProfile (sampleProfile\<lparr>dateOfBirth := ''1985-01-31''\<rparr>) sampleResponse
                     IMAGE ''chat.png'' ''h1'' 5 6) = ''1985-01-31''
   \<and> dateOfBirth (mergeAll (sampleProfile\<lparr>dateOfBirth := ''1985-01-31''\<rparr>)
                     [(sampleResponse, IMAGE, ''chat.png'', ''h1'', 5, 6),
                      (sampleResponse, AUDIO, ''voice-note.webm'', ''h2'', 6, 7)]) = ''1985-01-31''
   \<and> dateOfBirth (mergeProfile sampleProfile sampleResponse IMAGE ''chat.png'' ''h1'' 5 6)
       = ''1990-04-12''"
  using C4_dob [of "sampleProfile\<lparr>dateOfBirth := ''1985-01-31''\<rparr>" sampleResponse IMAGE
                   "''chat.png''" "''h1''" 5 6
                   "[(sampleResponse, IMAGE, ''chat.png'', ''h1'', 5, 6),
                     (sampleResponse, AUDIO, ''voice-note.webm'', ''h2'', 6, 7)]"]
        C4_dob [of sampleProfile sampleResponse IMAGE "''chat.png''" "''h1''" 5 6 "[]"]
  by (simp add: sampleProfile_def sampleResponse_def generateNewProfile_def)

subsection \<open>Deleting a profile\<close>

text \<open>
  C5. With a non-empty active id and a confirmed deletion: when the store holds no key
  other than the active id, the new store is exactly one fresh default profile and the
  active id names it; when other profiles remain, the store is the old one without the
  active id, and the new active id is the first remaining key, which names a profile.
\<close>

theorem C5_delete:
  assumes "activeProfileId st = Some aid" and "aid \<noteq> []"
  shows "((\<forall>k \<in> set (objectKeys (profiles st)). k = aid) \<longrightarrow>
            profiles (handleDeleteProfile st True uuid now) = [(uuid, generateNewProfile uuid now)]
          \<and> activeProfileId (handleDeleteProfile st True uuid now) = Some uuid
          \<and> getProp (profiles (handleDeleteProfile st True uuid now)) uuid
              = Own (generateNewProfile uuid now))
       \<and> ((\<exists>k \<in> set (objectKeys (profiles st)). k \<noteq> aid) \<longrightarrow>
            profiles (handleDeleteProfile st True uuid now) = objDelete (profiles st) aid
          \<and> activeProfileId (handleDeleteProfile st True uuid now)
              = first (objectKeys (objDelete (profiles st) aid))
          \<and> (\<exists>k p. activeProfileId (handleDeleteProfile st True uuid now) = Some k
                \<and> k \<noteq> aid
                \<and> getProp (profiles st) k = Own p
                \<and> getProp (profiles (handleDeleteProfile st True uuid now)) k = Own p))"
proof -
  let ?st' = "handleDeleteProfile st True uuid now"
  let ?rest = "objDelete (profiles st) aid"
  have last: "profiles ?st' = [(uuid, generateNewProfile uuid now)]
      \<and> activeProfileId ?st' = Some uuid
      \<and> getProp (profiles ?st') uuid = Own (generateNewProfile uuid now)"
    if "\<forall>k \<in> set (objectKeys (profiles st)). k = aid"
  proof -
    have "?rest = []" using that by (simp add: objDelete_Nil_iff)
    then show ?thesis
      using assms
      by (simp add: handleDeleteProfile_def truthy_def objectKeys_def Let_def
            generateNewProfile_def getProp_def)
  qed
  have others: "profiles ?st' = ?rest
      \<and> activeProfileId ?st' = first (objectKeys ?rest)
      \<and> (\<exists>k p. activeProfileId ?st' = Some k \<and> k \<noteq> aid
            \<and> getProp (profiles st) k = Own p \<and> getProp (profiles ?st') k = Own p)"
    if "\<exists>k \<in> set (objectKeys (profiles st)). k \<noteq> aid"
  proof -
    have "?rest \<noteq> []" using that by (auto simp: objDelete_Nil_iff)
    then obtain k p rest where r: "?rest = (k, p) # rest" by (cases ?rest) auto
    have st': "profiles ?st' = ?rest" "activeProfileId ?st' = Some k"
      using assms r by (simp_all add: handleDeleteProfile_def truthy_def objectKeys_def Let_def)
    have m: "map_of ?rest k = Some p" by (simp add: r)
    then have ne: "k \<noteq> aid" by (auto simp: map_of_objDelete split: if_splits)
    with m have "map_of (profiles st) k = Some p" by (simp add: map_of_objDelete)
    then show ?thesis
      using st' m ne r by (simp add: getProp_Own_iff objectKeys_def)
  qed
  show ?thesis using last others by blast
qed

theorem C5_delete_witness:
  "handleDeleteProfile \<lparr> profiles = [(''p1'', sampleProfile)], activeProfileId = Some ''p1'',
                          error = None \<rparr> True ''p2'' 7
     = \<lparr> profiles = [(''p2'', generateNewProfile ''p2'' 7)], activeProfileId = Some ''p2'',
         error = None \<rparr>
   \<and> activeProfileId
       (handleDeleteProfile \<lparr> profiles = [(''p1'', sampleProfile), (''p3'', sampleProfile),
                                            (''p4'', sampleProfile)],
                               activeProfileId = Some ''p1'', error = None \<rparr> True ''p2'' 7)
       = Some ''p3''"
  using C5_delete [of "\<lparr> profiles = [(''p1'', sampleProfile)], activeProfileId = Some ''p1'',
                          error = None \<rparr>" "''p1''" "''p2''" 7]
        C5_delete [of "\<lparr> profiles = [(''p1'', sampleProfile), (''p3'', sampleProfile),
                                       (''p4'', sampleProfile)],
                          activeProfileId = Some ''p1'', error = None \<rparr>" "''p1''" "''p2''" 7]
  by (simp add: objectKeys_def handleDeleteProfile_def truthy_def generateNewProfile_def)

subsection \<open>Loading\<close>

text \<open>
  C6, as amended. When the stored profile map is a non-empty text that is not JSON,
  \<open>loadData\<close> returns a state, whose store is exactly one fresh default profile and
  whose active id names it, and leaves the storage as it was.
\<close>

theorem C6_corrupt:
  assumes "psycho_profiles_db ls = Some payload" and "payload \<noteq> []"
    and "parseProfiles payload = None"
  shows "loadData parseProfiles parseLegacy ls uuid1 uuid2 now =
           (\<lparr> profiles = [(uuid1, generateNewProfile uuid1 now)],
              activeProfileId = Some uuid1, error = None \<rparr>, ls)
         \<and> id' (generateNewProfile uuid1 now) = uuid1"
  using assms
  by (simp add: loadData_def freshStart_def initialState_def truthy_def Let_def
        generateNewProfile_def)

theorem C6_corrupt_witness:
  "sampleParseProfiles (take 6 sampleDbPayload) = None
   \<and> take 6 sampleDbPayload \<noteq> []
   \<and> loadData sampleParseProfiles sampleParseLegacy
        \<lparr> psycho_profiles_db = Some (take 6 sampleDbPayload), psycho_active_id = Some ''p1'',
          psycho_profile_v3 = None \<rparr> ''u1'' ''u2'' 9
      = (\<lparr> profiles = [(''u1'', generateNewProfile ''u1'' 9)],
           activeProfileId = Some ''u1'', error = None \<rparr>,
         \<lparr> psycho_profiles_db = Some (take 6 sampleDbPayload), psycho_active_id = Some ''p1'',
           psycho_profile_v3 = None \<rparr>)"
proof -
  have p: "sampleParseProfiles (take 6 sampleDbPayload) = None"
    by (simp add: sampleParseProfiles_def sampleDbPayload_def)
  have n: "take 6 sampleDbPayload \<noteq> []" by (simp add: sampleDbPayload_def)
  show ?thesis
    using p n
      C6_corrupt [of "\<lparr> psycho_profiles_db = Some (take 6 sampleDbPayload),
                          psycho_active_id = Some ''p1'', psycho_profile_v3 = None \<rparr>"
                      "take 6 sampleDbPayload" sampleParseProfiles sampleParseLegacy
                      "''u1''" "''u2''" 9]
    by simp
qed

text \<open>
  C6 as stated fails on the empty text: it is not JSON, but it is falsy, so
  \<open>loadData\<close> treats the key as absent and migrates the legacy record.
\<close>

theorem C6_counterexample:
  "sampleParseProfiles [] = None
   \<and> profiles (fst (loadData sampleParseProfiles sampleParseLegacy
        \<lparr> psycho_profiles_db = Some [], psycho_active_id = None,
          psycho_profile_v3 = Some sampleLegacyPayload \<rparr> ''u1'' ''u2'' 9))
      = [(''u1'', (generateNewProfile ''u1'' 9)\<lparr>firstName := ''Jane'', lastName := ''Doe''\<rparr>)]
   \<and> (generateNewProfile ''u1'' 9)\<lparr>firstName := ''Jane'', lastName := ''Doe''\<rparr>
        \<noteq> generateNewProfile ''u1'' 9"
  by (simp add: sampleParseProfiles_def sampleDbPayload_def loadData_def truthy_def Let_def
        sampleParseLegacy_def sampleLegacy_def sampleLegacyPayload_def migratedProfile_def
        initialState_def generateNewProfile_def jsOr_def orDefault_def spread_def)

text \<open>
  C7. (By \<open>first_split\<close> and \<open>join_rest_split\<close>, the two names taken from a legacy
  \<open>name\<close> are the text before its first blank and the text after it.)
  With no current-format record and a legacy record whose \<open>name\<close> is
  \<^verbatim>\<open>"Jane Doe"\<close> and that has no \<open>firstName\<close> and no \<open>lastName\<close>, \<open>loadData\<close> yields
  one profile under the newly drawn id, with that id, first name \<^verbatim>\<open>"Jane"\<close>, last name
  \<^verbatim>\<open>"Doe"\<close>, every other field the legacy record lacks at its default, and removes
  the legacy key from the storage.
\<close>

theorem C7_migration:
  assumes "psycho_profiles_db ls = None"
    and "psycho_profile_v3 ls = Some payload" and "payload \<noteq> []"
    and "parseLegacy payload = Some parsedLegacy"
    and "l_name parsedLegacy = Some ''Jane Doe''"
    and "l_firstName parsedLegacy = None" and "l_lastName parsedLegacy = None"
  shows "\<exists>p. fst (loadData parseProfiles parseLegacy ls uuid1 uuid2 now)
               = \<lparr> profiles = [(uuid1, p)], activeProfileId = Some uuid1, error = None \<rparr>
           \<and> id' p = uuid1 \<and> firstName p = ''Jane'' \<and> lastName p = ''Doe''
           \<and> dateOfBirth p = (case l_dateOfBirth parsedLegacy of None \<Rightarrow> [] | Some v \<Rightarrow> v)
           \<and> lastUpdated p = (case l_lastUpdated parsedLegacy of None \<Rightarrow> now | Some v \<Rightarrow> v)
           \<and> bigFive p = (case l_bigFive parsedLegacy of
                             None \<Rightarrow> bigFive (generateNewProfile uuid2 now) | Some v \<Rightarrow> v)
           \<and> mbti p = (case l_mbti parsedLegacy of None \<Rightarrow> ''Unknown'' | Some v \<Rightarrow> v)
           \<and> enneagram p = (case l_enneagram parsedLegacy of None \<Rightarrow> ''Unknown'' | Some v \<Rightarrow> v)
           \<and> attachmentStyle p =
               (case l_attachmentStyle parsedLegacy of None \<Rightarrow> ''Unknown'' | Some v \<Rightarrow> v)
           \<and> summary p = (case l_summary parsedLegacy of
                             None \<Rightarrow> summary (generateNewProfile uuid2 now) | Some v \<Rightarrow> v)
           \<and> keyTraits p = (case l_keyTraits parsedLegacy of None \<Rightarrow> [] | Some v \<Rightarrow> v)
           \<and> bodyLanguageNotes p =
               (case l_bodyLanguageNotes parsedLegacy of None \<Rightarrow> [] | Some v \<Rightarrow> v)
           \<and> toneVoiceNotes p =
               (case l_toneVoiceNotes parsedLegacy of None \<Rightarrow> [] | Some v \<Rightarrow> v)
           \<and> history p = (case l_history parsedLegacy of None \<Rightarrow> [] | Some v \<Rightarrow> v)
           \<and> snd (loadData parseProfiles parseLegacy ls uuid1 uuid2 now)
               = ls\<lparr>psycho_profile_v3 := None\<rparr>"
  using assms
  by (simp add: loadData_def truthy_def Let_def initialState_def migratedProfile_def
        jsOr_def orDefault_def spread_def generateNewProfile_def split: option.splits)

theorem C7_migration_witness:
  "\<exists>p. fst (loadData sampleParseProfiles sampleParseLegacy
               \<lparr> psycho_profiles_db = None, psycho_active_id = None,
                 psycho_profile_v3 = Some sampleLegacyPayload \<rparr> ''u1'' ''u2'' 9)
          = \<lparr> profiles = [(''u1'', p)], activeProfileId = Some ''u1'', error = None \<rparr>
      \<and> id' p = ''u1'' \<and> firstName p = ''Jane'' \<and> lastName p = ''Doe''
      \<and> dateOfBirth p = [] \<and> mbti p = ''Unknown'' \<and> history p = []
      \<and> psycho_profile_v3 (snd (loadData sampleParseProfiles sampleParseLegacy
               \<lparr> psycho_profiles_db = None, psycho_active_id = None,
                 psycho_profile_v3 = Some sampleLegacyPayload \<rparr> ''u1'' ''u2'' 9)) = None"
proof -
  let ?ls = "\<lparr> psycho_profiles_db = None, psycho_active_id = None,
                psycho_profile_v3 = Some sampleLegacyPayload \<rparr>"
  have a: "psycho_profiles_db ?ls = None" "psycho_profile_v3 ?ls = Some sampleLegacyPayload"
    by simp_all
  have b: "sampleLegacyPayload \<noteq> []" by (simp add: sampleLegacyPayload_def)
  have c: "sampleParseLegacy sampleLegacyPayload = Some sampleLegacy"
    by (simp add: sampleParseLegacy_def)
  have d: "l_name sampleLegacy = Some ''Jane Doe''" "l_firstName sampleLegacy = None"
    "l_lastName sampleLegacy = None"
    by (simp_all add: sampleLegacy_def)
  show ?thesis
    using C7_migration [of ?ls sampleLegacyPayload sampleParseLegacy sampleLegacy
                           sampleParseProfiles "''u1''" "''u2''" 9] a b c d
    by (auto simp: sampleLegacy_def)
qed

text \<open>
  The fallback to the first key: it happens when the stored active id is absent, empty,
  or names neither a key of the parsed map nor a member of \<^verbatim>\<open>Object.prototype\<close>, and
  the first key is not empty.
\<close>

lemma loadData_first_key:
  assumes "psycho_profiles_db ls = Some payload" and "payload \<noteq> []"
    and "parseProfiles payload = Some ((k, p) # parsed)"
    and "psycho_active_id ls = None \<or> psycho_active_id ls = Some [] \<or>
         (\<exists>a. psycho_active_id ls = Some a \<and> a \<notin> set (objectKeys ((k, p) # parsed))
               \<and> a \<notin> set objectPrototypeKeys)"
    and "k \<noteq> []"
  shows "loadData parseProfiles parseLegacy ls uuid1 uuid2 now =
           (\<lparr> profiles = (k, p) # parsed, activeProfileId = Some k, error = None \<rparr>, ls)"
proof -
  have "(truthyOpt (psycho_active_id ls) \<and>
            truthyProp (getProp ((k, p) # parsed) (the (psycho_active_id ls)))) = False"
  proof (cases "psycho_active_id ls")
    case None
    then show ?thesis by simp
  next
    case (Some a)
    show ?thesis
    proof (cases "a = []")
      case True
      then show ?thesis using Some by (simp add: truthy_def)
    next
      case False
      then have "a \<notin> set (objectKeys ((k, p) # parsed))" "a \<notin> set objectPrototypeKeys"
        using assms(4) Some by auto
      then have "map_of ((k, p) # parsed) a = None"
        by (simp add: objectKeys_def map_of_eq_None_iff del: map_of.simps)
      then have "getProp ((k, p) # parsed) a = Undefined"
        using \<open>a \<notin> set objectPrototypeKeys\<close> by (simp add: getProp_def del: map_of.simps)
      then show ?thesis using Some by simp
    qed
  qed
  then show ?thesis
    using assms(1,2,3,5)
    by (auto simp: loadData_def truthy_def Let_def initialState_def objectKeys_def)
qed

text \<open>
  C10 at a stored active id that names no key of the parsed map but a member of
  \<^verbatim>\<open>Object.prototype\<close>: \<open>loadData\<close> keeps it as the active id instead of falling
  back to the first key \<^verbatim>\<open>"p1"\<close>.
\<close>

theorem C10_inherited_key:
  "loadData sampleParseProfiles sampleParseLegacy
     \<lparr> psycho_profiles_db = Some sampleDbPayload, psycho_active_id = Some ''constructor'',
       psycho_profile_v3 = None \<rparr> ''u1'' ''u2'' 9
     = (\<lparr> profiles = [(''p1'', sampleProfile)], activeProfileId = Some ''constructor'',
          error = None \<rparr>,
        \<lparr> psycho_profiles_db = Some sampleDbPayload, psycho_active_id = Some ''constructor'',
          psycho_profile_v3 = None \<rparr>)
   \<and> objectKeys [(''p1'', sampleProfile)] = [''p1'']
   \<and> getProp [(''p1'', sampleProfile)] ''constructor'' = Inherited"
  by (simp add: loadData_def sampleParseProfiles_def truthy_def Let_def initialState_def
        getProp_def objectPrototypeKeys_def objectKeys_def sampleDbPayload_def)

subsection \<open>The store around a merge\<close>

text \<open>
  C8. A successful analysis of a non-empty batch appends one history entry whose file
  label is the decimal count followed by \<^verbatim>\<open>" files uploaded"\<close> when the batch has more
  than one file, and the name of the only file otherwise.
\<close>

theorem C8_label:
  assumes "files \<noteq> []" and "getProp prev (propKey aid) = Own current"
  shows "\<exists>new p h. analysisUpdater prev aid files ty result uuid now now2 = Inr new
           \<and> getProp new (propKey aid) = Own p
           \<and> history p = history current @ [h]
           \<and> h_fileName h =
               Some (if length files > 1 then showNat (length files) @ '' files uploaded''
                     else f_name (hd files))"
  using assms
  by (simp add: analysisUpdater_Own getProp_objSet_same mergeProfile_def newHistoryItem_def)

theorem C8_label_witness:
  "\<exists>new p h. analysisUpdater [(''p1'', sampleProfile)] (Some ''p1'')
                 (replicate 12 sampleFile) IMAGE sampleResponse ''h1'' 5 6 = Inr new
      \<and> getProp new ''p1'' = Own p
      \<and> history p = history sampleProfile @ [h]
      \<and> h_fileName h = Some ''12 files uploaded''"
proof -
  have n: "replicate 12 sampleFile \<noteq> []" by simp
  have o: "getProp [(''p1'', sampleProfile)] (propKey (Some ''p1'')) = Own sampleProfile"
    by (simp add: getProp_def)
  have s: "showNat 12 = ''12''" by code_simp
  show ?thesis
    using C8_label [OF n o, of IMAGE sampleResponse "''h1''" 5 6] s by simp
qed

text \<open>
  C9. When the updater returns a store, every key other than the active id reads as
  before, the keys and their order are unchanged, and the profile under the active id
  keeps its \<open>id\<close>.
\<close>

theorem C9_frame:
  assumes "analysisUpdater prev aid files ty result uuid now now2 = Inr new"
  shows "(\<forall>k. k \<noteq> propKey aid \<longrightarrow> getProp new k = getProp prev k)
       \<and> objectKeys new = objectKeys prev
       \<and> (\<forall>current. getProp prev (propKey aid) = Own current \<longrightarrow>
            (\<exists>p. getProp new (propKey aid) = Own p \<and> id' p = id' current))"
proof (cases "getProp prev (propKey aid)")
  case Undefined
  with assms show ?thesis by (simp add: analysisUpdater_def)
next
  case Inherited
  with assms show ?thesis by (simp add: analysisUpdater_def)
next
  case (Own current)
  then obtain label where l: "fileLabel files = Inr label"
    and n: "new = objSet prev (propKey aid) (mergeProfile current result ty label uuid now now2)"
    using assms by (auto simp: analysisUpdater_def split: sum.splits)
  have "map_of prev (propKey aid) = Some current"
    using Own by (simp add: getProp_Own_iff)
  then show ?thesis
    using Own n
    by (simp add: getProp_objSet_same getProp_objSet_other objectKeys_objSet mergeProfile_def)
qed

theorem C9_frame_witness:
  "analysisUpdater [(''p1'', sampleProfile), (''p2'', generateNewProfile ''p2'' 1)] (Some ''p1'')
      [sampleFile] IMAGE sampleResponse ''h1'' 5 6
     = Inr [(''p1'', mergeProfile sampleProfile sampleResponse IMAGE ''chat.png'' ''h1'' 5 6),
            (''p2'', generateNewProfile ''p2'' 1)]
   \<and> getProp [(''p1'', mergeProfile sampleProfile sampleResponse IMAGE ''chat.png'' ''h1'' 5 6),
               (''p2'', generateNewProfile ''p2'' 1)] ''p2''
       = getProp [(''p1'', sampleProfile), (''p2'', generateNewProfile ''p2'' 1)] ''p2''
   \<and> id' (mergeProfile sampleProfile sampleResponse IMAGE ''chat.png'' ''h1'' 5 6) = ''p1''"
proof -
  have run: "analysisUpdater [(''p1'', sampleProfile), (''p2'', generateNewProfile ''p2'' 1)]
      (Some ''p1'') [sampleFile] IMAGE sampleResponse ''h1'' 5 6
     = Inr [(''p1'', mergeProfile sampleProfile sampleResponse IMAGE ''chat.png'' ''h1'' 5 6),
            (''p2'', generateNewProfile ''p2'' 1)]"
    by (simp add: analysisUpdater_def getProp_def sampleFile_def)
  show ?thesis
    using C9_frame [OF run] run
    by (simp add: getProp_def mergeProfile_def sampleProfile_def generateNewProfile_def)
qed

subsection \<open>Export\<close>

text \<open>
  Finding a piece in a chain of appended pieces, and an element in a joined list.
\<close>

lemma sub_skip: "sublist x ys \<Longrightarrow> sublist x (zs @ ys)"
  by (metis append.assoc sublist_def)


lemma here0: "sublist a a"
  by simp

lemma here1: "sublist a (a @ r)"
  by simp

lemma here2: "sublist (a @ b) (a @ b @ r)"
  by (metis append.assoc sublist_append_rightI)

lemma here3: "sublist (a @ b @ c) (a @ b @ c @ r)"
  by (metis append.assoc sublist_append_rightI)

lemma here4: "sublist (a @ b @ c @ d) (a @ b @ c @ d @ r)"
  by (metis append.assoc sublist_append_rightI)





lemma trimEnd_spaces: "\<forall>c \<in> set ws. isSpace c \<Longrightarrow> trimEnd ws = []"
  by (simp add: trimEnd_def)



























lemma html_title:
  \<open>sublist (''<title>Psychological Profile - '' @ firstName p @ '' '' @ lastName p)
     (generateHTMLReport toLocaleString toLocaleDateString now p)\<close>
  by (unfold generateHTMLReport_def, (rule here4 | rule here3 | rule here2 | rule here1 | rule here0 | rule sub_skip)+)









































































lemma mediaTypeString_plain:
  "\<forall>c \<in> set (mediaTypeString ty). c \<noteq> CHR 0x22 \<and> c \<noteq> CHR 0x5C \<and> 32 \<le> (of_char c :: nat)"
  by (cases ty) simp_all



















end
